theory Spec2Isabelle
  imports Complex_Main "HOL-Library.Sublist"
begin

section \<open>Python values\<close>

text \<open>
  The guards of \<^verbatim>\<open>guard.py\<close> take arbitrary Python objects. The values modelled here
  are the built-in ones the guards dispatch on, path objects, generators and instances of
  user classes: of plain classes (which define none of \<^verbatim>\<open>__eq__\<close>, \<^verbatim>\<open>__bool__\<close>,
  \<^verbatim>\<open>__len__\<close>, \<^verbatim>\<open>__iter__\<close>, \<^verbatim>\<open>__getitem__\<close>, \<^verbatim>\<open>__lt__\<close>, \<^verbatim>\<open>__fspath__\<close>), and of
  classes that define one special method the guards are sensitive to: \<^verbatim>\<open>__iter__\<close>,
  \<^verbatim>\<open>__getitem__\<close> alone (the old sequence protocol), or an \<^verbatim>\<open>__eq__\<close> that compares a
  text the object holds with the other operand.

  A float is \<open>Finite m e\<close> for the number \<open>m * 2 ^ e\<close>, or one of the special values;
  only its sign and whether it is zero matter to the guards. A \<^verbatim>\<open>str\<close> is held as its
  UTF-8 bytes. Generators and instances carry an object identity.
\<close>

datatype pyfloat = Finite int int | NegZero | PosInf | NegInf | NaN

datatype pyval =
    PNone
  | PBool bool
  | PInt int
  | PFloat pyfloat
  | PComplex pyfloat pyfloat
  | PStr string
  | PBytes string
  | PList "pyval list"
  | PTuple "pyval list"
  | PDict "(pyval \<times> pyval) list"
  | PSet "pyval list"
  | PGenerator nat
  | PPath string
  | PInstance string "string list" nat
  | PIterObj string nat
  | PGetitemObj string nat
  | PTextObj string nat string

text \<open>
  \<open>PPath s\<close> is a \<^verbatim>\<open>pathlib.PosixPath\<close> whose \<^verbatim>\<open>__fspath__()\<close> and \<^verbatim>\<open>str()\<close> are \<open>s\<close>.
  \<open>PInstance n bases i\<close> is the object \<open>i\<close> of the plain user class \<open>n\<close>, whose user-defined
  ancestors are \<open>bases\<close>, nearest first (single inheritance, from \<^verbatim>\<open>object\<close>).
  The other three are objects of a user class \<open>n\<close> derived from \<^verbatim>\<open>object\<close>:
  \<open>PIterObj n i\<close> of a class that defines \<^verbatim>\<open>__iter__\<close>; \<open>PGetitemObj n i\<close> of a class that
  defines \<^verbatim>\<open>__getitem__\<close> and no \<^verbatim>\<open>__iter__\<close>, so that \<^verbatim>\<open>iter()\<close> and \<^verbatim>\<open>for\<close> work on it
  through the indices 0, 1, ...; \<open>PTextObj n i t\<close> of a class with
  \<^verbatim>\<open>def __eq__(self, other): return self.text == other\<close>, holding the text \<open>t\<close>.
\<close>

section \<open>Classes, \<^verbatim>\<open>type()\<close> and \<^verbatim>\<open>isinstance\<close>\<close>

datatype special_method = DunderIter | DunderGetitem | DunderEq

datatype pyclass =
    TObject | TNoneType | TBool | TInt | TFloat | TComplex | TStr | TBytes
  | TList | TTuple | TDict | TSet | TGenerator | TPosixPath
  | TIterable | TPathLike
  | TUser string "string list"
  | TSpecial string special_method

fun class_name :: "pyclass \<Rightarrow> string" where
  "class_name TObject = ''object''"
| "class_name TNoneType = ''NoneType''"
| "class_name TBool = ''bool''"
| "class_name TInt = ''int''"
| "class_name TFloat = ''float''"
| "class_name TComplex = ''complex''"
| "class_name TStr = ''str''"
| "class_name TBytes = ''bytes''"
| "class_name TList = ''list''"
| "class_name TTuple = ''tuple''"
| "class_name TDict = ''dict''"
| "class_name TSet = ''set''"
| "class_name TGenerator = ''generator''"
| "class_name TPosixPath = ''PosixPath''"
| "class_name TIterable = ''Iterable''"
| "class_name TPathLike = ''PathLike''"
| "class_name (TUser n bases) = n"
| "class_name (TSpecial n m) = n"

fun type_of :: "pyval \<Rightarrow> pyclass" where
  "type_of PNone = TNoneType"
| "type_of (PBool b) = TBool"
| "type_of (PInt i) = TInt"
| "type_of (PFloat f) = TFloat"
| "type_of (PComplex re im) = TComplex"
| "type_of (PStr s) = TStr"
| "type_of (PBytes b) = TBytes"
| "type_of (PList xs) = TList"
| "type_of (PTuple xs) = TTuple"
| "type_of (PDict kvs) = TDict"
| "type_of (PSet xs) = TSet"
| "type_of (PGenerator i) = TGenerator"
| "type_of (PPath s) = TPosixPath"
| "type_of (PInstance n bases i) = TUser n bases"
| "type_of (PIterObj n i) = TSpecial n DunderIter"
| "type_of (PGetitemObj n i) = TSpecial n DunderGetitem"
| "type_of (PTextObj n i t) = TSpecial n DunderEq"

text \<open>The method resolution order of a class: \<^verbatim>\<open>bool\<close> derives from \<^verbatim>\<open>int\<close>, a user
  class from its chain of user classes, everything from \<^verbatim>\<open>object\<close>.\<close>

fun user_mro :: "string \<Rightarrow> string list \<Rightarrow> pyclass list" where
  "user_mro n [] = [TUser n []]"
| "user_mro n (b # bases) = TUser n (b # bases) # user_mro b bases"

fun mro :: "pyclass \<Rightarrow> pyclass list" where
  "mro TObject = [TObject]"
| "mro TBool = [TBool, TInt, TObject]"
| "mro (TUser n bases) = user_mro n bases @ [TObject]"
| "mro c = [c, TObject]"

text \<open>\<^verbatim>\<open>collections.abc.Iterable\<close> and \<^verbatim>\<open>os.PathLike\<close> are abstract base classes whose
  \<^verbatim>\<open>__subclasshook__\<close> accepts every class that defines \<^verbatim>\<open>__iter__\<close>, respectively
  \<^verbatim>\<open>__fspath__\<close>.\<close>

fun defines_iter :: "pyclass \<Rightarrow> bool" where
  "defines_iter TStr = True"
| "defines_iter TBytes = True"
| "defines_iter TList = True"
| "defines_iter TTuple = True"
| "defines_iter TDict = True"
| "defines_iter TSet = True"
| "defines_iter TGenerator = True"
| "defines_iter TIterable = True"
| "defines_iter (TSpecial n DunderIter) = True"
| "defines_iter c = False"

fun defines_fspath :: "pyclass \<Rightarrow> bool" where
  "defines_fspath TPosixPath = True"
| "defines_fspath TPathLike = True"
| "defines_fspath c = False"

definition issubclass :: "pyclass \<Rightarrow> pyclass \<Rightarrow> bool" where
  "issubclass c t \<longleftrightarrow>
     t \<in> set (mro c) \<or> (t = TIterable \<and> defines_iter c) \<or> (t = TPathLike \<and> defines_fspath c)"

definition isinstance :: "pyval \<Rightarrow> pyclass \<Rightarrow> bool" where
  "isinstance v t \<longleftrightarrow> issubclass (type_of v) t"

text \<open>\<^verbatim>\<open>isinstance(v, (t1, t2, ...))\<close> with a tuple of classes.\<close>

definition isinstance_any :: "pyval \<Rightarrow> pyclass list \<Rightarrow> bool" where
  "isinstance_any v ts \<longleftrightarrow> list_ex (isinstance v) ts"

section \<open>Exceptions and operators\<close>

text \<open>
  A raised exception is a value: its class and its message. The specification's failure
  kinds are InvalidArgument for \<open>ValueError\<close>, TypeMismatch for \<open>TypeError\<close> and NotFound
  for \<open>FileNotFoundError\<close>. \<open>OSError\<close> and \<open>OverflowError\<close> are raised by the operating
  system interface only.
\<close>

datatype exn =
    ValueError string
  | TypeError string
  | FileNotFoundError string
  | OSError string
  | OverflowError string

fun message :: "exn \<Rightarrow> string" where
  "message (ValueError m) = m"
| "message (TypeError m) = m"
| "message (FileNotFoundError m) = m"
| "message (OSError m) = m"
| "message (OverflowError m) = m"

text \<open>The class of an exception, as \<^verbatim>\<open>type(e).__name__\<close>.\<close>

fun exn_class :: "exn \<Rightarrow> string" where
  "exn_class (ValueError m) = ''ValueError''"
| "exn_class (TypeError m) = ''TypeError''"
| "exn_class (FileNotFoundError m) = ''FileNotFoundError''"
| "exn_class (OSError m) = ''OSError''"
| "exn_class (OverflowError m) = ''OverflowError''"

text \<open>\<open>quoted s\<close> is \<open>s\<close> between two apostrophes, as \<^verbatim>\<open>'{s}'\<close> in an f-string.\<close>

definition quoted :: "string \<Rightarrow> string" where
  "quoted s = CHR 0x27 # s @ [CHR 0x27]"

fun float_is_zero :: "pyfloat \<Rightarrow> bool" where
  "float_is_zero (Finite m e) = (m = 0)"
| "float_is_zero NegZero = True"
| "float_is_zero f = False"

fun float_lt_zero :: "pyfloat \<Rightarrow> bool" where
  "float_lt_zero (Finite m e) = (m < 0)"
| "float_lt_zero NegInf = True"
| "float_lt_zero f = False"

text \<open>\<^verbatim>\<open>argument is None\<close>.\<close>

fun is_none :: "pyval \<Rightarrow> bool" where
  "is_none PNone = True"
| "is_none v = False"

text \<open>\<^verbatim>\<open>argument < 0\<close>: numbers compare by value, \<^verbatim>\<open>bool\<close> as 0 or 1; every other
  operand (complex included) raises \<^verbatim>\<open>TypeError\<close>.\<close>

fun py_lt_zero :: "pyval \<Rightarrow> exn + bool" where
  "py_lt_zero (PBool b) = Inr False"
| "py_lt_zero (PInt i) = Inr (i < 0)"
| "py_lt_zero (PFloat f) = Inr (float_lt_zero f)"
| "py_lt_zero v = Inl (TypeError
     (quoted ''<'' @ '' not supported between instances of '' @ quoted (class_name (type_of v))
        @ '' and '' @ quoted ''int''))"

text \<open>\<^verbatim>\<open>argument == ""\<close>: the argument's \<^verbatim>\<open>__eq__\<close> decides. A \<^verbatim>\<open>str\<close> equals a
  \<^verbatim>\<open>str\<close> with the same characters; an object whose \<^verbatim>\<open>__eq__\<close> compares its text compares
  that; no other value equals a \<^verbatim>\<open>str\<close>.\<close>

fun py_eq_empty_str :: "pyval \<Rightarrow> bool" where
  "py_eq_empty_str (PStr s) = (s = [])"
| "py_eq_empty_str (PTextObj n i t) = (t = [])"
| "py_eq_empty_str v = False"

text \<open>\<^verbatim>\<open>argument == 0\<close>: numbers of every numeric type compare by value; a value of any
  other type is unequal to an \<^verbatim>\<open>int\<close> (a text never equals a number, so this holds for
  the objects that compare their text, too).\<close>

fun py_eq_zero :: "pyval \<Rightarrow> bool" where
  "py_eq_zero (PBool b) = (\<not> b)"
| "py_eq_zero (PInt i) = (i = 0)"
| "py_eq_zero (PFloat f) = float_is_zero f"
| "py_eq_zero (PComplex re im) = (float_is_zero re \<and> float_is_zero im)"
| "py_eq_zero v = False"

text \<open>Truth value testing, as \<^verbatim>\<open>not argument\<close> and \<^verbatim>\<open>bool(argument)\<close> do it.\<close>

fun truthy :: "pyval \<Rightarrow> bool" where
  "truthy PNone = False"
| "truthy (PBool b) = b"
| "truthy (PInt i) = (i \<noteq> 0)"
| "truthy (PFloat f) = (\<not> float_is_zero f)"
| "truthy (PComplex re im) = (\<not> (float_is_zero re \<and> float_is_zero im))"
| "truthy (PStr s) = (s \<noteq> [])"
| "truthy (PBytes b) = (b \<noteq> [])"
| "truthy (PList xs) = (xs \<noteq> [])"
| "truthy (PTuple xs) = (xs \<noteq> [])"
| "truthy (PDict kvs) = (kvs \<noteq> [])"
| "truthy (PSet xs) = (xs \<noteq> [])"
| "truthy (PGenerator i) = True"
| "truthy (PPath s) = True"
| "truthy (PInstance n bases i) = True"
| "truthy (PIterObj n i) = True"
| "truthy (PGetitemObj n i) = True"
| "truthy (PTextObj n i t) = True"

section \<open>The operating system interface\<close>

text \<open>
  What \<^verbatim>\<open>os.stat\<close> finds, following symbolic links: the kind of file at a path
  (\<open>stat_path\<close>, keyed by the path's bytes) or behind an open file descriptor
  (\<open>stat_fd\<close>); \<open>None\<close> where the system call fails or the path is malformed, which
  \<^verbatim>\<open>os.stat\<close> reports as \<^verbatim>\<open>OSError\<close> or \<^verbatim>\<open>ValueError\<close>. \<open>str_of\<close> is \<^verbatim>\<open>str()\<close>
  for the values whose rendering is not modelled (floats, complex numbers, containers,
  generators and user objects); none of them gets as far as the message of a guard.
\<close>

datatype file_kind = RegularFile | Directory | OtherFile

record runtime =
  stat_path :: "string \<Rightarrow> file_kind option"
  stat_fd :: "int \<Rightarrow> file_kind option"
  str_of :: "pyval \<Rightarrow> string"

text \<open>An \<^verbatim>\<open>int\<close> in decimal, as \<^verbatim>\<open>str\<close> renders it.\<close>

definition digit :: "nat \<Rightarrow> char" where
  "digit n = ''0123456789abcdef'' ! n"

fun show_nat :: "nat \<Rightarrow> string" where
  "show_nat n = (if n < 10 then [digit n] else show_nat (n div 10) @ [digit (n mod 10)])"

declare show_nat.simps [simp del]

definition show_int :: "int \<Rightarrow> string" where
  "show_int i = (if i < 0 then CHR ''-'' # show_nat (nat (- i)) else show_nat (nat i))"

text \<open>
  The \<^verbatim>\<open>repr\<close> of a \<^verbatim>\<open>bytes\<close> object, which is also its \<^verbatim>\<open>str\<close>: \<^verbatim>\<open>b'...'\<close>, in double
  quotes when the bytes hold an apostrophe and no double quote; the quote and the backslash
  are escaped, tab, newline and carriage return are written \<^verbatim>\<open>\t\<close>, \<^verbatim>\<open>\n\<close>, \<^verbatim>\<open>\r\<close>, and every
  other byte outside the printable ASCII range as \<^verbatim>\<open>\xhh\<close>.
\<close>

definition bytes_quote :: "string \<Rightarrow> char" where
  "bytes_quote b = (if CHR 0x27 \<in> set b \<and> CHR 0x22 \<notin> set b then CHR 0x22 else CHR 0x27)"

definition escape_byte :: "char \<Rightarrow> char \<Rightarrow> string" where
  "escape_byte q c =
     (if c = q \<or> c = CHR 0x5C then [CHR 0x5C, c]
      else if c = CHR 0x09 then [CHR 0x5C, CHR ''t'']
      else if c = CHR 0x0A then [CHR 0x5C, CHR ''n'']
      else if c = CHR 0x0D then [CHR 0x5C, CHR ''r'']
      else if (of_char c :: nat) < 32 \<or> 127 \<le> (of_char c :: nat)
      then [CHR 0x5C, CHR ''x'', digit (of_char c div 16), digit (of_char c mod 16)]
      else [c])"

definition bytes_repr :: "string \<Rightarrow> string" where
  "bytes_repr b = CHR ''b'' # bytes_quote b # concat (map (escape_byte (bytes_quote b)) b) @ [bytes_quote b]"

text \<open>\<^verbatim>\<open>str(v)\<close>, as the f-string field \<^verbatim>\<open>{v}\<close> renders a value.\<close>

fun py_str :: "runtime \<Rightarrow> pyval \<Rightarrow> string" where
  "py_str rt (PStr s) = s"
| "py_str rt (PPath s) = s"
| "py_str rt (PBytes b) = bytes_repr b"
| "py_str rt (PInt i) = show_int i"
| "py_str rt (PBool b) = (if b then ''True'' else ''False'')"
| "py_str rt PNone = ''None''"
| "py_str rt v = str_of rt v"

definition lookup_stat :: "'a \<Rightarrow> ('a \<Rightarrow> file_kind option) \<Rightarrow> exn + file_kind" where
  "lookup_stat k tab = (case tab k of None \<Rightarrow> Inl (OSError ''stat failed'') | Some fk \<Rightarrow> Inr fk)"

text \<open>
  \<^verbatim>\<open>os.stat(path)\<close>: a \<^verbatim>\<open>str\<close>, \<^verbatim>\<open>bytes\<close> or \<^verbatim>\<open>os.PathLike\<close> argument is a path, an
  \<^verbatim>\<open>int\<close> (so also a \<^verbatim>\<open>bool\<close>) is a file descriptor, which has to fit a C \<^verbatim>\<open>int\<close>;
  any other argument raises \<^verbatim>\<open>TypeError\<close>.
\<close>

definition stat_by_fd :: "runtime \<Rightarrow> int \<Rightarrow> exn + file_kind" where
  "stat_by_fd rt i =
     (if i > 2147483647 then Inl (OverflowError ''fd is greater than maximum'')
      else if i < - 2147483648 then Inl (OverflowError ''fd is less than minimum'')
      else lookup_stat i (stat_fd rt))"

fun os_stat :: "runtime \<Rightarrow> pyval \<Rightarrow> exn + file_kind" where
  "os_stat rt (PStr s) = lookup_stat s (stat_path rt)"
| "os_stat rt (PBytes b) = lookup_stat b (stat_path rt)"
| "os_stat rt (PPath s) = lookup_stat s (stat_path rt)"
| "os_stat rt (PInt i) = stat_by_fd rt i"
| "os_stat rt (PBool b) = stat_by_fd rt (if b then 1 else 0)"
| "os_stat rt v = Inl (TypeError
     (''stat: path should be string, bytes, os.PathLike or integer, not ''
        @ class_name (type_of v)))"

text \<open>
  \<^verbatim>\<open>os.path.exists\<close> and \<^verbatim>\<open>os.path.isdir\<close> call \<^verbatim>\<open>os.stat\<close> and turn \<^verbatim>\<open>OSError\<close> and
  \<^verbatim>\<open>ValueError\<close> into \<^verbatim>\<open>False\<close>; any other exception passes through.
\<close>

definition os_path_exists :: "runtime \<Rightarrow> pyval \<Rightarrow> exn + bool" where
  "os_path_exists rt path =
     (case os_stat rt path of
        Inl (OSError m) \<Rightarrow> Inr False
      | Inl (ValueError m) \<Rightarrow> Inr False
      | Inl e \<Rightarrow> Inl e
      | Inr st \<Rightarrow> Inr True)"

definition os_path_isdir :: "runtime \<Rightarrow> pyval \<Rightarrow> exn + bool" where
  "os_path_isdir rt s =
     (case os_stat rt s of
        Inl (OSError m) \<Rightarrow> Inr False
      | Inl (ValueError m) \<Rightarrow> Inr False
      | Inl e \<Rightarrow> Inl e
      | Inr st \<Rightarrow> Inr (st = Directory))"

section \<open>The guards\<close>

text \<open>
  Each guard returns \<open>Inr argument\<close> where the Python returns \<^verbatim>\<open>argument\<close> and \<open>Inl e\<close>
  where it raises \<open>e\<close>. The argument name is passed explicitly; the defaults of the
  signatures are \<open>default_name\<close> below.
\<close>

definition against_none :: "pyval \<Rightarrow> string \<Rightarrow> exn + pyval" where
  "against_none argument argument_name =
     (if is_none argument
      then Inl (ValueError (''Argument '' @ quoted argument_name @ '' must not be None.''))
      else Inr argument)"

definition against_negative :: "pyval \<Rightarrow> string \<Rightarrow> exn + pyval" where
  "against_negative argument argument_name =
     (case py_lt_zero argument of
        Inl e \<Rightarrow> Inl e
      | Inr True \<Rightarrow> Inl (ValueError (''Argument '' @ quoted argument_name @ '' must be positive''))
      | Inr False \<Rightarrow> Inr argument)"

definition against_empty_string :: "pyval \<Rightarrow> string \<Rightarrow> exn + pyval" where
  "against_empty_string argument argument_name =
     (if py_eq_empty_str argument
      then Inl (ValueError (''Argument '' @ quoted argument_name @ '' must not be '' @ quoted []))
      else Inr argument)"

definition against_zero :: "pyval \<Rightarrow> string \<Rightarrow> exn + pyval" where
  "against_zero argument argument_name =
     (if py_eq_zero argument
      then Inl (ValueError (''Argument '' @ quoted argument_name @ '' must not be zero.''))
      else Inr argument)"

definition against_empty_collection :: "pyval \<Rightarrow> string \<Rightarrow> exn + pyval" where
  "against_empty_collection argument argument_name =
     (if \<not> truthy argument
      then Inl (ValueError (''Argument '' @ quoted argument_name @ '' must not be empty.''))
      else Inr argument)"

definition against_wrong_type :: "pyval \<Rightarrow> pyclass \<Rightarrow> string \<Rightarrow> exn + pyval" where
  "against_wrong_type argument expected_type argument_name =
     (if \<not> isinstance argument expected_type
      then Inl (TypeError (''Argument '' @ quoted argument_name @ '' must be of type ''
              @ class_name expected_type @ ''. Got '' @ class_name (type_of argument) @ ''.''))
      else Inr argument)"

definition against_file_not_found :: "runtime \<Rightarrow> pyval \<Rightarrow> string \<Rightarrow> exn + pyval" where
  "against_file_not_found rt path argument_name =
     (if is_none path
      then Inl (ValueError (''Argument '' @ quoted argument_name @ '' must not be None.''))
      else if \<not> isinstance_any path [TStr, TBytes, TPathLike]
      then Inl (TypeError (''Argument '' @ quoted argument_name
              @ '' must be a valid file path (str, bytes, or os.PathLike).''))
      else (case os_path_exists rt path of
              Inl e \<Rightarrow> Inl e
            | Inr False \<Rightarrow> Inl (FileNotFoundError (''File not found: '' @ quoted (py_str rt path)))
            | Inr True \<Rightarrow> Inr path))"

definition against_directory_not_found :: "runtime \<Rightarrow> pyval \<Rightarrow> string \<Rightarrow> exn + pyval" where
  "against_directory_not_found rt path argument_name =
     (case os_path_isdir rt path of
        Inl e \<Rightarrow> Inl e
      | Inr False \<Rightarrow> Inl (FileNotFoundError (''Directory not found: '' @ quoted (py_str rt path)))
      | Inr True \<Rightarrow> Inr path)"

definition against_not_iterable :: "pyval \<Rightarrow> string \<Rightarrow> exn + pyval" where
  "against_not_iterable argument argument_name =
     (if \<not> isinstance argument TIterable \<or> isinstance_any argument [TStr, TBytes]
      then Inl (TypeError (''Argument '' @ quoted argument_name
              @ '' must be an iterable (not str/bytes).''))
      else Inr argument)"

text \<open>
  A call of a guard, \<^verbatim>\<open>Guard.against_...(value)\<close> or \<^verbatim>\<open>Guard.against_...(value, name)\<close>:
  the guard called (with the expected type, for \<^verbatim>\<open>against_wrong_type\<close>) and the name
  argument, \<open>None\<close> where the caller leaves it to the signature's default.
\<close>

datatype check =
    AgainstNone
  | AgainstNegative
  | AgainstEmptyString
  | AgainstZero
  | AgainstEmptyCollection
  | AgainstWrongType pyclass
  | AgainstFileNotFound
  | AgainstDirectoryNotFound
  | AgainstNotIterable

fun default_name :: "check \<Rightarrow> string" where
  "default_name AgainstFileNotFound = ''file_path''"
| "default_name AgainstDirectoryNotFound = ''directory''"
| "default_name c = ''value''"

definition name_used :: "check \<Rightarrow> string option \<Rightarrow> string" where
  "name_used c name = (case name of None \<Rightarrow> default_name c | Some n \<Rightarrow> n)"

fun call :: "runtime \<Rightarrow> check \<Rightarrow> pyval \<Rightarrow> string option \<Rightarrow> exn + pyval" where
  "call rt AgainstNone v name = against_none v (name_used AgainstNone name)"
| "call rt AgainstNegative v name = against_negative v (name_used AgainstNegative name)"
| "call rt AgainstEmptyString v name = against_empty_string v (name_used AgainstEmptyString name)"
| "call rt AgainstZero v name = against_zero v (name_used AgainstZero name)"
| "call rt AgainstEmptyCollection v name =
     against_empty_collection v (name_used AgainstEmptyCollection name)"
| "call rt (AgainstWrongType t) v name = against_wrong_type v t (name_used (AgainstWrongType t) name)"
| "call rt AgainstFileNotFound v name =
     against_file_not_found rt v (name_used AgainstFileNotFound name)"
| "call rt AgainstDirectoryNotFound v name =
     against_directory_not_found rt v (name_used AgainstDirectoryNotFound name)"
| "call rt AgainstNotIterable v name = against_not_iterable v (name_used AgainstNotIterable name)"

section \<open>The specification's notions\<close>

text \<open>
  The number a float denotes; the infinities and NaN denote none.
\<close>

fun float_value :: "pyfloat \<Rightarrow> real option" where
  "float_value (Finite m e) = Some (of_int m * 2 powr of_int e)"
| "float_value NegZero = Some 0"
| "float_value f = None"

text \<open>
  The specification's "equals zero in any numeric representation": the value is a number
  (\<^verbatim>\<open>bool\<close>, \<^verbatim>\<open>int\<close>, \<^verbatim>\<open>float\<close>, \<^verbatim>\<open>complex\<close>) and the number it denotes is zero.
\<close>

fun spec_numeric_zero :: "pyval \<Rightarrow> bool" where
  "spec_numeric_zero (PBool b) = ((if b then 1 else 0) = (0::int))"
| "spec_numeric_zero (PInt i) = (i = 0)"
| "spec_numeric_zero (PFloat f) = (float_value f = Some 0)"
| "spec_numeric_zero (PComplex re im) = (float_value re = Some 0 \<and> float_value im = Some 0)"
| "spec_numeric_zero v = False"

text \<open>
  The specification's "falsy-empty": an empty sequence, an empty mapping, an empty set, a
  numeric zero, or a value with no content (\<^verbatim>\<open>None\<close>).
\<close>

fun spec_falsy_empty :: "pyval \<Rightarrow> bool" where
  "spec_falsy_empty PNone = True"
| "spec_falsy_empty (PStr s) = (length s = 0)"
| "spec_falsy_empty (PBytes b) = (length b = 0)"
| "spec_falsy_empty (PList xs) = (length xs = 0)"
| "spec_falsy_empty (PTuple xs) = (length xs = 0)"
| "spec_falsy_empty (PDict kvs) = (length kvs = 0)"
| "spec_falsy_empty (PSet xs) = (length xs = 0)"
| "spec_falsy_empty v = spec_numeric_zero v"




section \<open>A sample file system\<close>

text \<open>A directory, a regular file in it, and a terminal on file descriptor 0.\<close>

definition sample_runtime :: runtime where
  "sample_runtime =
     \<lparr>stat_path = [''/etc'' \<mapsto> Directory, ''/etc/hostname'' \<mapsto> RegularFile],
      stat_fd = [0 \<mapsto> OtherFile],
      str_of = (\<lambda>v. ''<'' @ class_name (type_of v) @ ''>'')\<rparr>"

section \<open>Properties\<close>

lemma float_value_zero: "(float_value f = Some 0) = float_is_zero f"
  by (cases f) simp_all

lemma py_eq_zero_spec: "py_eq_zero v = spec_numeric_zero v"
  by (cases v) (simp_all add: float_value_zero)

lemma truthy_spec: "truthy v = (\<not> spec_falsy_empty v)"
  by (cases v) (simp_all add: float_value_zero)

lemma user_mro_classes: "c \<in> set (user_mro n bases) \<Longrightarrow> \<exists>n' bases'. c = TUser n' bases'"
  by (induction bases arbitrary: n) auto



lemma isinstance_str: "isinstance v TStr = (\<exists>s. v = PStr s)"
  by (cases v) (auto simp: isinstance_def issubclass_def dest: user_mro_classes)

lemma isinstance_pathlike:
  "isinstance_any v [TStr, TBytes, TPathLike] = (\<exists>s. v = PStr s \<or> v = PBytes s \<or> v = PPath s)"
  by (cases v) (auto simp: isinstance_any_def isinstance_def issubclass_def dest: user_mro_classes)

lemma os_path_exists_pathlike:
  assumes "isinstance_any v [TStr, TBytes, TPathLike]"
  shows "\<exists>b. os_path_exists rt v = Inr b"
  using assms unfolding isinstance_pathlike
  by (auto simp: os_path_exists_def lookup_stat_def split: option.splits)

lemma os_stat_raises:
  "os_stat rt v = Inl e \<Longrightarrow> (\<exists>m. e = OSError m \<or> e = TypeError m \<or> e = OverflowError m)"
  by (cases v) (auto simp: lookup_stat_def stat_by_fd_def split: option.splits if_splits)

lemma sublist_skip_char: "sublist s r \<Longrightarrow> sublist s (c # r)"
  by (simp add: sublist_Cons_right)

lemma sublist_skip_prefix: "sublist s r \<Longrightarrow> sublist s (p @ r)"
  by (induction p) (simp_all add: sublist_skip_char)

lemma sublist_quoted: "sublist s (quoted s @ r)"
  by (simp add: quoted_def sublist_skip_char)

lemmas in_message = sublist_skip_char sublist_skip_prefix sublist_quoted

text \<open>
  C1 (as the code behaves): \<^verbatim>\<open>against_file_not_found\<close> tests the path with
  \<^verbatim>\<open>os.path.exists\<close>, so a path that resolves to a directory is returned unchanged, where
  the specification asks for a NotFound failure unless the path resolves to a regular file.
\<close>

theorem against_file_not_found_accepts_directory:
  "stat_path sample_runtime ''/etc'' = Some Directory \<and>
   against_file_not_found sample_runtime (PStr ''/etc'') ''p'' = Inr (PStr ''/etc'')"
  by (simp add: sample_runtime_def against_file_not_found_def isinstance_any_def isinstance_def
      issubclass_def os_path_exists_def lookup_stat_def)

text \<open>
  C2 (as stated, refuted): the NotFound failures of \<^verbatim>\<open>against_file_not_found\<close> and
  \<^verbatim>\<open>against_directory_not_found\<close> carry a message built from the path alone, and the
  \<^verbatim>\<open>TypeError\<close> that \<^verbatim>\<open>against_negative\<close> lets through for a complex number is the
  comparison's own; the argument's name \<^verbatim>\<open>cfg\<close> occurs in none of them.
\<close>

theorem not_found_message_omits_name:
  "call sample_runtime AgainstFileNotFound (PStr ''/nonexistent/path'') (Some ''cfg'')
     = Inl (FileNotFoundError (''File not found: '' @ quoted ''/nonexistent/path'')) \<and>
   \<not> sublist ''cfg'' (''File not found: '' @ quoted ''/nonexistent/path'') \<and>
   call sample_runtime AgainstDirectoryNotFound (PStr ''/nonexistent/path'') (Some ''cfg'')
     = Inl (FileNotFoundError (''Directory not found: '' @ quoted ''/nonexistent/path'')) \<and>
   \<not> sublist ''cfg'' (''Directory not found: '' @ quoted ''/nonexistent/path'') \<and>
   call sample_runtime AgainstNegative (PComplex (Finite 1 0) (Finite 0 0)) (Some ''cfg'')
     = Inl (TypeError (quoted ''<'' @ '' not supported between instances of '' @ quoted ''complex''
         @ '' and '' @ quoted ''int'')) \<and>
   \<not> sublist ''cfg'' (quoted ''<'' @ '' not supported between instances of '' @ quoted ''complex''
         @ '' and '' @ quoted ''int'')"
  by (simp add: sample_runtime_def against_file_not_found_def against_directory_not_found_def
      against_negative_def isinstance_any_def isinstance_def issubclass_def os_path_exists_def
      os_path_isdir_def lookup_stat_def name_used_def quoted_def sublist_Cons_right)

text \<open>
  C2 (amended): every InvalidArgument failure of a guard, and every TypeMismatch failure of
  a guard other than \<^verbatim>\<open>against_negative\<close> and \<^verbatim>\<open>against_directory_not_found\<close> (whose
  TypeMismatch failures come from the comparison and from \<^verbatim>\<open>os.stat\<close>), carries a message
  that contains the argument's name, the caller's or the default one; the NotFound failure
  of \<^verbatim>\<open>against_file_not_found\<close> carries a message that contains the quoted path instead.
  Nothing is stated of the failures of \<^verbatim>\<open>against_directory_not_found\<close>, which never reads
  its name parameter (see C3).
\<close>

theorem failure_message_names_argument:
  assumes "call rt c v name = Inl e"
  shows "(\<forall>m. e = ValueError m \<longrightarrow> sublist (name_used c name) m) \<and>
         (\<forall>m. e = TypeError m \<longrightarrow> c \<noteq> AgainstNegative \<longrightarrow> c \<noteq> AgainstDirectoryNotFound \<longrightarrow>
              sublist (name_used c name) m) \<and>
         (\<forall>m. e = FileNotFoundError m \<longrightarrow> c = AgainstFileNotFound \<longrightarrow>
              sublist (quoted (py_str rt v)) m)"
proof (cases c)
  case AgainstNone
  with assms show ?thesis
    by (auto simp: against_none_def in_message split: if_splits)
next
  case AgainstNegative
  with assms show ?thesis
    by (cases v) (auto simp: against_negative_def in_message split: bool.splits)
next
  case AgainstEmptyString
  with assms show ?thesis
    by (auto simp: against_empty_string_def in_message split: if_splits)
next
  case AgainstZero
  with assms show ?thesis
    by (auto simp: against_zero_def in_message split: if_splits)
next
  case AgainstEmptyCollection
  with assms show ?thesis
    by (auto simp: against_empty_collection_def in_message split: if_splits)
next
  case (AgainstWrongType t)
  with assms show ?thesis
    by (auto simp: against_wrong_type_def in_message split: if_splits)
next
  case AgainstFileNotFound
  with assms show ?thesis
    using os_path_exists_pathlike [of v rt]
    by (auto simp: against_file_not_found_def in_message
        split: if_splits sum.splits bool.splits)
next
  case AgainstDirectoryNotFound
  with assms show ?thesis
    using os_stat_raises [of rt v]
    by (auto simp: against_directory_not_found_def os_path_isdir_def in_message
        split: if_splits sum.splits bool.splits exn.splits)
next
  case AgainstNotIterable
  with assms show ?thesis
    by (auto simp: against_not_iterable_def in_message split: if_splits)
qed

theorem failure_message_names_argument_witness:
  "call sample_runtime AgainstNone PNone (Some ''x'')
     = Inl (ValueError (''Argument '' @ quoted ''x'' @ '' must not be None.'')) \<and>
   sublist ''x'' (''Argument '' @ quoted ''x'' @ '' must not be None.'') \<and>
   call sample_runtime AgainstZero (PInt 0) None
     = Inl (ValueError (''Argument '' @ quoted ''value'' @ '' must not be zero.'')) \<and>
   sublist ''value'' (''Argument '' @ quoted ''value'' @ '' must not be zero.'')"
proof -
  have a: "call sample_runtime AgainstNone PNone (Some ''x'')
     = Inl (ValueError (''Argument '' @ quoted ''x'' @ '' must not be None.''))"
    by (simp add: against_none_def name_used_def)
  have b: "call sample_runtime AgainstZero (PInt 0) None
     = Inl (ValueError (''Argument '' @ quoted ''value'' @ '' must not be zero.''))"
    by (simp add: against_zero_def name_used_def)
  show ?thesis
    using a b failure_message_names_argument [OF a] failure_message_names_argument [OF b]
    by (simp add: name_used_def)
qed

text \<open>
  C3 (as the code behaves): \<^verbatim>\<open>against_directory_not_found\<close> has neither the \<^verbatim>\<open>None\<close>
  check nor the type check of \<^verbatim>\<open>against_file_not_found\<close>. Given \<^verbatim>\<open>None\<close> it fails with
  the \<^verbatim>\<open>TypeError\<close> of \<^verbatim>\<open>os.stat\<close>, where the specification asks for InvalidArgument;
  given the
  integer 123, which is no path-like value, it takes the file descriptor 123 and fails with
  NotFound, where the specification asks for TypeMismatch.
\<close>

theorem against_directory_not_found_unchecked:
  "against_directory_not_found sample_runtime PNone ''d''
     = Inl (TypeError ''stat: path should be string, bytes, os.PathLike or integer, not NoneType'') \<and>
   against_directory_not_found sample_runtime (PInt 123) ''d''
     = Inl (FileNotFoundError (''Directory not found: '' @ quoted ''123''))"
  by (simp add: sample_runtime_def against_directory_not_found_def os_path_isdir_def
      stat_by_fd_def lookup_stat_def show_int_def show_nat.simps digit_def)

text \<open>
  C4: for every value \<open>v\<close> and every class \<open>t\<close>, \<^verbatim>\<open>against_wrong_type(v, t, name)\<close> returns
  \<open>v\<close> when \<open>v\<close> is an instance of \<open>t\<close>, and otherwise fails with a TypeMismatch whose
  message contains the name of \<open>t\<close> and the name of the class of \<open>v\<close>.
\<close>

theorem against_wrong_type_correct:
  "(isinstance v t \<longrightarrow> against_wrong_type v t n = Inr v) \<and>
   (\<not> isinstance v t \<longrightarrow>
      (\<exists>m. against_wrong_type v t n = Inl (TypeError m) \<and>
           sublist (class_name t) m \<and> sublist (class_name (type_of v)) m))"
  by (simp add: against_wrong_type_def in_message)

theorem against_wrong_type_correct_witness:
  "\<not> isinstance (PInt 5) TStr \<and>
   (\<exists>m. against_wrong_type (PInt 5) TStr ''x'' = Inl (TypeError m) \<and>
        sublist ''str'' m \<and> sublist ''int'' m) \<and>
   isinstance (PStr ''a'') TStr \<and>
   against_wrong_type (PStr ''a'') TStr ''x'' = Inr (PStr ''a'')"
proof -
  have a: "\<not> isinstance (PInt 5) TStr"
    by (simp add: isinstance_def issubclass_def)
  have b: "isinstance (PStr ''a'') TStr"
    by (simp add: isinstance_def issubclass_def)
  show ?thesis
    using a b against_wrong_type_correct [of "PInt 5" TStr "''x''"]
      against_wrong_type_correct [of "PStr ''a''" TStr "''x''"]
    by simp
qed

text \<open>
  C5: for every value \<open>v\<close>, \<^verbatim>\<open>against_empty_collection(v, name)\<close> fails with
  InvalidArgument exactly when \<open>v\<close> is falsy-empty (an empty sequence, mapping or set, a
  numeric zero, \<^verbatim>\<open>None\<close>), and otherwise returns \<open>v\<close>; \<^verbatim>\<open>[]\<close> and \<^verbatim>\<open>{}\<close> fail and
  \<^verbatim>\<open>[1]\<close> succeeds.
\<close>

theorem against_empty_collection_correct:
  "against_empty_collection v n =
     (if spec_falsy_empty v
      then Inl (ValueError (''Argument '' @ quoted n @ '' must not be empty.''))
      else Inr v) \<and>
   against_empty_collection (PList []) n
     = Inl (ValueError (''Argument '' @ quoted n @ '' must not be empty.'')) \<and>
   against_empty_collection (PDict []) n
     = Inl (ValueError (''Argument '' @ quoted n @ '' must not be empty.'')) \<and>
   against_empty_collection (PList [PInt 1]) n = Inr (PList [PInt 1])"
  by (simp add: against_empty_collection_def truthy_spec)

theorem against_empty_collection_correct_witness:
  "spec_falsy_empty (PSet []) \<and>
   against_empty_collection (PSet []) ''c''
     = Inl (ValueError (''Argument '' @ quoted ''c'' @ '' must not be empty.'')) \<and>
   against_empty_collection (PInt 0) ''c''
     = Inl (ValueError (''Argument '' @ quoted ''c'' @ '' must not be empty.'')) \<and>
   against_empty_collection (PGenerator 7) ''c'' = Inr (PGenerator 7)"
  using against_empty_collection_correct [of "PSet []" "''c''"]
    against_empty_collection_correct [of "PInt 0" "''c''"]
    against_empty_collection_correct [of "PGenerator 7" "''c''"]
  by simp




text \<open>
  C7: for every value \<open>v\<close>, so for every number, \<^verbatim>\<open>against_zero(v, name)\<close> fails with
  InvalidArgument exactly when \<open>v\<close> is a number that denotes zero, whatever its numeric
  type, and otherwise returns \<open>v\<close>.
\<close>

theorem against_zero_correct:
  "against_zero v n =
     (if spec_numeric_zero v
      then Inl (ValueError (''Argument '' @ quoted n @ '' must not be zero.''))
      else Inr v)"
  by (simp add: against_zero_def py_eq_zero_spec)

theorem against_zero_correct_witness:
  "against_zero (PInt 0) ''z''
     = Inl (ValueError (''Argument '' @ quoted ''z'' @ '' must not be zero.'')) \<and>
   against_zero (PFloat (Finite 0 0)) ''z''
     = Inl (ValueError (''Argument '' @ quoted ''z'' @ '' must not be zero.'')) \<and>
   against_zero (PInt 1) ''z'' = Inr (PInt 1)"
  using against_zero_correct [of "PInt 0" "''z''"]
    against_zero_correct [of "PFloat (Finite 0 0)" "''z''"]
    against_zero_correct [of "PInt 1" "''z''"]
  by simp

text \<open>
  C8: for every string \<open>s\<close>, \<^verbatim>\<open>against_empty_string(s, name)\<close> fails with InvalidArgument
  exactly when \<open>s\<close> is the empty string, and otherwise returns \<open>s\<close>; a string of one blank
  succeeds.
\<close>

theorem against_empty_string_correct:
  "against_empty_string (PStr s) n =
     (if s = []
      then Inl (ValueError (''Argument '' @ quoted n @ '' must not be '' @ quoted []))
      else Inr (PStr s)) \<and>
   against_empty_string (PStr '' '') n = Inr (PStr '' '')"
  by (simp add: against_empty_string_def)

theorem against_empty_string_correct_witness:
  "against_empty_string (PStr []) ''s''
     = Inl (ValueError (''Argument '' @ quoted ''s'' @ '' must not be '' @ quoted [])) \<and>
   against_empty_string (PStr ''  '') ''s'' = Inr (PStr ''  '')"
  using against_empty_string_correct [of "[]" "''s''"]
    against_empty_string_correct [of "''  ''" "''s''"]
  by simp

text \<open>
  C9: whenever a guard succeeds it returns the value it was given, and the name argument
  changes neither whether the guard succeeds, nor the value returned, nor the class of the
  exception raised.
\<close>

theorem call_returns_argument:
  "(call rt c v name = Inr r \<longrightarrow> r = v) \<and>
   map_sum exn_class id (call rt c v name) = map_sum exn_class id (call rt c v name')"
proof (cases c)
  case AgainstFileNotFound
  then show ?thesis
    by (auto simp: against_file_not_found_def split: sum.splits bool.splits)
next
  case AgainstDirectoryNotFound
  then show ?thesis
    by (auto simp: against_directory_not_found_def split: sum.splits bool.splits)
next
  case AgainstNegative
  then show ?thesis
    by (auto simp: against_negative_def split: sum.splits bool.splits)
qed (auto simp: against_none_def against_empty_string_def against_zero_def
    against_empty_collection_def against_wrong_type_def against_not_iterable_def)

theorem call_returns_argument_witness:
  "call sample_runtime AgainstFileNotFound (PStr ''/etc/hostname'') None = Inr (PStr ''/etc/hostname'') \<and>
   call sample_runtime AgainstFileNotFound (PStr ''/etc/hostname'') (Some ''p'')
     = Inr (PStr ''/etc/hostname'') \<and>
   map_sum exn_class id (call sample_runtime AgainstNegative (PInt (- 1)) (Some ''n''))
     = Inl ''ValueError'' \<and>
   map_sum exn_class id (call sample_runtime AgainstNegative (PInt (- 1)) None)
     = Inl ''ValueError''"
proof -
  have a: "call sample_runtime AgainstFileNotFound (PStr ''/etc/hostname'') None
      = Inr (PStr ''/etc/hostname'')"
    by (simp add: sample_runtime_def against_file_not_found_def isinstance_any_def
        isinstance_def issubclass_def os_path_exists_def lookup_stat_def)
  have b: "map_sum exn_class id (call sample_runtime AgainstNegative (PInt (- 1)) (Some ''n''))
      = Inl ''ValueError''"
    by (simp add: against_negative_def)
  show ?thesis
    using a b
      call_returns_argument [of sample_runtime AgainstFileNotFound "PStr ''/etc/hostname''"
        None "PStr ''/etc/hostname''" "Some ''p''"]
      call_returns_argument [of sample_runtime AgainstNegative "PInt (- 1)" "Some ''n''"
        "PInt (- 1)" None]
    by (simp add: map_sum_def split: sum.splits)
qed

text \<open>
  C10 (as stated, refuted): \<^verbatim>\<open>argument == ""\<close> is answered by the argument's \<^verbatim>\<open>__eq__\<close>,
  so a value that is no string and compares equal to the empty string, here an object whose
  \<^verbatim>\<open>__eq__\<close> compares its own empty text, fails with InvalidArgument.
\<close>

theorem against_empty_string_rejects_equal_object:
  "\<not> isinstance (PTextObj ''Label'' 1 []) TStr \<and>
   against_empty_string (PTextObj ''Label'' 1 []) ''s''
     = Inl (ValueError (''Argument '' @ quoted ''s'' @ '' must not be '' @ quoted []))"
  by (simp add: against_empty_string_def isinstance_def issubclass_def)

text \<open>
  C10 (amended): \<^verbatim>\<open>against_empty_string\<close> puts no constraint on the type of its argument:
  every value \<open>v\<close> that is not a string is returned unchanged (\<^verbatim>\<open>None\<close>, numbers, bytes,
  collections, paths, generators and objects of classes that keep the comparison of
  \<^verbatim>\<open>object\<close>), unless the \<^verbatim>\<open>__eq__\<close> of its class makes \<open>v\<close> equal to the empty string, in
  which case the guard fails with InvalidArgument as it does for \<^verbatim>\<open>""\<close>.
\<close>

theorem against_empty_string_non_string:
  "\<not> isinstance v TStr \<Longrightarrow>
   against_empty_string v n =
     (case v of
        PTextObj c i t \<Rightarrow>
          (if t = []
           then Inl (ValueError (''Argument '' @ quoted n @ '' must not be '' @ quoted []))
           else Inr v)
      | _ \<Rightarrow> Inr v)"
  by (cases v) (simp_all add: against_empty_string_def isinstance_str)

theorem against_empty_string_non_string_witness:
  "\<not> isinstance PNone TStr \<and> against_empty_string PNone ''s'' = Inr PNone \<and>
   \<not> isinstance (PInt 0) TStr \<and> against_empty_string (PInt 0) ''s'' = Inr (PInt 0) \<and>
   \<not> isinstance (PList []) TStr \<and> against_empty_string (PList []) ''s'' = Inr (PList []) \<and>
   \<not> isinstance (PTextObj ''Label'' 1 ''a'') TStr \<and>
   against_empty_string (PTextObj ''Label'' 1 ''a'') ''s'' = Inr (PTextObj ''Label'' 1 ''a'')"
proof -
  have a: "\<not> isinstance PNone TStr"
    and b: "\<not> isinstance (PInt 0) TStr"
    and c: "\<not> isinstance (PList []) TStr"
    and d: "\<not> isinstance (PTextObj ''Label'' 1 ''a'') TStr"
    by (simp_all add: isinstance_str)
  show ?thesis
    using a b c d against_empty_string_non_string [OF a, of "''s''"]
      against_empty_string_non_string [OF b, of "''s''"]
      against_empty_string_non_string [OF c, of "''s''"]
      against_empty_string_non_string [OF d, of "''s''"]
    by simp
qed

end
